theory Spec2Isabelle
  imports Main "HOL-Library.AList"
begin

section \<open>The workset ownership contract\<close>

text \<open>
  A shallow embedding of the class \<open>WorksetOwnershipContract\<close>
  (\<open>src/SmartContracts/WorksetOwnershipContract.py\<close>). Every method becomes a function
  that takes the contract's state and returns its result together with the state it
  leaves behind.

  Conventions of the embedding.
  \<^item> Time. Every \<open>datetime\<close> is the number of microseconds since the epoch, an
    \<open>int\<close>. The source stores timestamps as the ISO string \<open>d.isoformat()\<close> and reads
    them back with \<open>datetime.fromisoformat\<close>; the embedding stores the \<open>datetime\<close>
    the string denotes. Each call of \<open>datetime.utcnow()\<close> is an argument of its own
    (\<open>t1\<close>, \<open>t2\<close>, ...), in the order in which the method reads the clock. The upper end
    of Python's \<open>datetime\<close> range is not modelled for clock readings.
  \<^item> Library functions. \<open>hashlib.sha256(data.encode()).hexdigest()\<close>,
    \<open>datetime.isoformat\<close> (used as text only inside a hashed string) and the
    conversion \<open>datetime.utcfromtimestamp(timestamp / 1000000)\<close>, which goes through a
    float, are parameters, the record \<open>pylib\<close>: nothing is assumed of what they
    compute.
  \<^item> Dictionaries. \<open>workset_owners\<close> and \<open>workset_metadata\<close> are only ever looked up by
    key, so they are maps. \<open>active_borrows\<close> is iterated, so it is an association list in
    insertion order (\<open>AList.update\<close> replaces in place or appends, as a Python
    \<open>dict\<close> does).
  \<^item> Shared objects. The metadata dictionary of a workset is referenced both from
    \<open>workset_metadata\<close> and from the ownership-history entry written at registration,
    and \<open>transfer_ownership\<close> assigns to one of its keys. The metadata dictionaries
    therefore live in a store, \<open>metadata_objs\<close>, and both places hold a reference
    (an index into the store).
  \<^item> Exceptions. A method either returns a dictionary \<open>{"success": ...}\<close> or raises;
    \<open>outcome\<close> has one constructor for each, both with the state left behind.
\<close>

subsection \<open>Data\<close>

type_synonym datetime = int

datatype exc = KeyError | ValueError | OverflowError | OSError

text \<open>Values of the dictionaries in \<open>ownership_history\<close>.\<close>

datatype pyval = VNone | VStr string | VTime datetime | VRef nat

type_synonym pydict = "(string \<times> pyval) list"

text \<open>The metadata dictionary of a workset (keys \<open>name\<close>, \<open>document_guid\<close>, ...).\<close>

record metadata =
  m_name :: string
  m_document_guid :: string
  m_registered_at :: datetime
  m_is_editable :: bool
  m_last_modified :: datetime

text \<open>
  A borrow request (keys \<open>request_id\<close>, \<open>workset_id\<close>, ...). The keys
  \<open>approved_at\<close> and \<open>expires_at\<close> are absent (\<open>None\<close>) until the request is approved.
\<close>

record request =
  r_request_id :: string
  r_workset_id :: string
  r_element_ids :: "string list"
  r_borrower :: string
  r_owner :: string
  r_reason :: string
  r_requested_at :: datetime
  r_status :: string
  r_approved_at :: "datetime option"
  r_expires_at :: "datetime option"

text \<open>An entry of a workset's list in \<open>active_borrows\<close>.\<close>

record borrow =
  b_borrower :: string
  b_element_ids :: "string list"
  b_borrowed_at :: datetime
  b_expires_at :: datetime
  b_request_id :: string

text \<open>An entry of the list \<open>check_expired_borrows\<close> returns.\<close>

record expired_borrow =
  x_workset_id :: string
  x_borrower :: string
  x_element_ids :: "string list"
  x_expired_at :: datetime

text \<open>The state variables and contract settings set up by \<open>__init__\<close>.\<close>

record ledger =
  workset_owners :: "string \<rightharpoonup> string"
  workset_metadata :: "string \<rightharpoonup> nat"
  metadata_objs :: "metadata list"
  borrow_requests :: "request list"
  borrow_history :: "request list"
  ownership_history :: "pydict list"
  active_borrows :: "(string \<times> borrow list) list"
  borrow_timeout_hours :: int
  max_concurrent_borrows :: int

text \<open>
  The dictionaries the methods return: \<open>Failure e\<close> is
  \<open>{"success": False, "error": e}\<close>, every other constructor is a dictionary with
  \<open>"success": True\<close> and the fields listed.
\<close>

datatype result =
    Failure string
  | Registered string string
      \<comment> \<open>\<open>workset_id\<close>, \<open>action\<close>\<close>
  | Transferred string string string
      \<comment> \<open>\<open>workset_id\<close>, \<open>new_owner\<close>, \<open>transfer_id\<close>\<close>
  | Requested string string string
      \<comment> \<open>\<open>request_id\<close>, \<open>status\<close>, \<open>owner\<close>\<close>
  | Approved string string datetime
      \<comment> \<open>\<open>request_id\<close>, \<open>borrower\<close>, \<open>expires_at\<close>\<close>
  | Released "string list" datetime
      \<comment> \<open>\<open>released_elements\<close>, \<open>released_at\<close>\<close>
  | Status string string nat nat nat "string set"
      \<comment> \<open>\<open>workset_id\<close>, \<open>owner\<close>, \<open>metadata\<close> (a reference), \<open>active_borrows\<close>,
          \<open>borrowed_elements\<close>, \<open>borrowers\<close>\<close>

datatype outcome = Returned result ledger | Raised exc ledger

fun success :: "result \<Rightarrow> bool" where
  "success (Failure e) = False"
| "success r = True"

fun state_of :: "outcome \<Rightarrow> ledger" where
  "state_of (Returned r s) = s"
| "state_of (Raised e s) = s"

fun returned_success :: "outcome \<Rightarrow> bool" where
  "returned_success (Returned r s) = success r"
| "returned_success (Raised e s) = False"

text \<open>
  The library functions. \<open>utcfromtimestamp L timestamp\<close> stands for the whole
  expression \<open>datetime.utcfromtimestamp(timestamp / 1000000)\<close>, the float division
  included: \<open>Inr d\<close> when it returns the \<open>datetime\<close> \<open>d\<close>, \<open>Inl e\<close> when
  it raises \<open>e\<close> (a \<open>ValueError\<close> for a year outside 1 to 9999, an
  \<open>OverflowError\<close> or \<open>OSError\<close> for arguments beyond the platform's range). The
  quotient is rounded to a double, so the \<open>datetime\<close> returned need not be the exact
  instant the integer denotes.
\<close>

record pylib =
  sha256_hexdigest :: "string \<Rightarrow> string"
  isoformat :: "datetime \<Rightarrow> string"
  utcfromtimestamp :: "int \<Rightarrow> exc + datetime"

definition initial_ledger :: ledger where
  "initial_ledger =
     \<lparr>workset_owners = Map.empty, workset_metadata = Map.empty, metadata_objs = [],
      borrow_requests = [], borrow_history = [], ownership_history = [],
      active_borrows = [], borrow_timeout_hours = 24, max_concurrent_borrows = 10\<rparr>"

subsection \<open>Registration\<close>

text \<open>
  \<open>register_workset\<close>. The arguments are strings, so \<open>all([workset_id, workset_name,
  owner])\<close> is false exactly when one of them is empty. \<open>is_editable\<close> is the keyword
  argument: \<open>None\<close> when the caller leaves it out. The clock is read three times.
\<close>

definition register_workset ::
  "ledger \<Rightarrow> string \<Rightarrow> string \<Rightarrow> string \<Rightarrow> string \<Rightarrow> bool option
     \<Rightarrow> datetime \<Rightarrow> datetime \<Rightarrow> datetime \<Rightarrow> result \<times> ledger" where
  "register_workset s workset_id workset_name owner document_guid is_editable t1 t2 t3 =
     (if workset_id = [] \<or> workset_name = [] \<or> owner = [] then
        (Failure ''Missing required parameters'', s)
      else
        let is_new = (workset_owners s workset_id = None);
            ref = length (metadata_objs s);
            md = \<lparr>m_name = workset_name, m_document_guid = document_guid,
                  m_registered_at = t1,
                  m_is_editable = (case is_editable of None \<Rightarrow> True | Some b \<Rightarrow> b),
                  m_last_modified = t2\<rparr>;
            action = (if is_new then ''registered'' else ''updated'')
        in (Registered workset_id action,
            s\<lparr>workset_owners := (workset_owners s)(workset_id \<mapsto> owner),
              workset_metadata := (workset_metadata s)(workset_id \<mapsto> ref),
              metadata_objs := metadata_objs s @ [md],
              ownership_history := ownership_history s @
                [[(''workset_id'', VStr workset_id), (''action'', VStr action),
                  (''owner'', VStr owner), (''timestamp'', VTime t3),
                  (''metadata'', VRef ref)]]\<rparr>))"

subsection \<open>Status query\<close>

definition borrows_of :: "(string \<times> borrow list) list \<Rightarrow> string \<Rightarrow> borrow list" where
  \<comment> \<open>\<open>self.active_borrows.get(workset_id, [])\<close>\<close>
  "borrows_of tbl workset_id = (case map_of tbl workset_id of None \<Rightarrow> [] | Some bs \<Rightarrow> bs)"

definition get_workset_status :: "ledger \<Rightarrow> string \<Rightarrow> outcome" where
  "get_workset_status s workset_id =
     (case workset_owners s workset_id of
        None \<Rightarrow> Returned (Failure ''Workset not found'') s
      | Some cur_owner \<Rightarrow>
          let active = borrows_of (active_borrows s) workset_id in
          (case workset_metadata s workset_id of
             None \<Rightarrow> Raised KeyError s
           | Some ref \<Rightarrow>
               Returned
                 (Status workset_id cur_owner ref (length active)
                    (sum_list (map (\<lambda>b. length (b_element_ids b)) active))
                    (set (map b_borrower active)))
                 s))"

subsection \<open>Identifiers\<close>

text \<open>
  \<open>str_int\<close> is Python's \<open>str\<close> on an \<open>int\<close>, as the f-string
  \<open>f"{workset_id}-{timestamp}-transfer"\<close> formats the timestamp.
\<close>

fun str_nat :: "nat \<Rightarrow> string" where
  "str_nat n =
     (if n < 10 then [''0123456789'' ! n]
      else str_nat (n div 10) @ [''0123456789'' ! (n mod 10)])"

definition str_int :: "int \<Rightarrow> string" where
  "str_int i = (if i < 0 then CHR ''-'' # str_nat (nat (- i)) else str_nat (nat i))"

definition generate_transfer_id :: "pylib \<Rightarrow> string \<Rightarrow> int \<Rightarrow> string" where
  "generate_transfer_id L workset_id timestamp =
     take 16 (sha256_hexdigest L (workset_id @ ''-'' @ str_int timestamp @ ''-transfer''))"

text \<open>\<open>t\<close> is the clock reading inside \<open>_generate_request_id\<close>.\<close>

definition generate_request_id :: "pylib \<Rightarrow> string \<Rightarrow> string \<Rightarrow> datetime \<Rightarrow> string" where
  "generate_request_id L workset_id user_id t =
     take 16 (sha256_hexdigest L (workset_id @ ''-'' @ user_id @ ''-'' @ isoformat L t))"

subsection \<open>Ownership transfer\<close>

text \<open>
  \<open>transfer_ownership\<close>. \<open>document_guid\<close> is the keyword argument. The owner is
  reassigned first; then the metadata's \<open>last_modified\<close> is assigned (a \<open>KeyError\<close>
  if the workset has no metadata entry); then the history entry is built, which
  converts the timestamp and raises if the conversion does; only then is the entry
  appended.
\<close>

definition transfer_ownership ::
  "pylib \<Rightarrow> ledger \<Rightarrow> string \<Rightarrow> string \<Rightarrow> string \<Rightarrow> int \<Rightarrow> string option \<Rightarrow> datetime
     \<Rightarrow> outcome" where
  "transfer_ownership L s workset_id from_user to_user timestamp document_guid t1 =
     (case workset_owners s workset_id of
        None \<Rightarrow> Returned (Failure ''Workset not found'') s
      | Some cur_owner \<Rightarrow>
          if cur_owner \<noteq> from_user then
            Returned (Failure (''User '' @ from_user @ '' is not the current owner'')) s
          else if borrows_of (active_borrows s) workset_id \<noteq> [] then
            Returned (Failure ''Cannot transfer ownership with active borrows'') s
          else
            let s1 = s\<lparr>workset_owners := (workset_owners s)(workset_id \<mapsto> to_user)\<rparr> in
            (case workset_metadata s1 workset_id of
               None \<Rightarrow> Raised KeyError s1
             | Some ref \<Rightarrow>
                 let s2 = s1\<lparr>metadata_objs :=
                             (metadata_objs s1)
                               [ref := (metadata_objs s1 ! ref)\<lparr>m_last_modified := t1\<rparr>]\<rparr>
                 in
                 (case utcfromtimestamp L timestamp of
                    Inl e \<Rightarrow> Raised e s2
                  | Inr dt \<Rightarrow>
                      Returned
                        (Transferred workset_id to_user
                           (generate_transfer_id L workset_id timestamp))
                        (s2\<lparr>ownership_history := ownership_history s2 @
                              [[(''workset_id'', VStr workset_id),
                                (''action'', VStr ''ownership_transfer''),
                                (''from_user'', VStr from_user),
                                (''to_user'', VStr to_user),
                                (''timestamp'', VTime dt),
                                (''document_guid'',
                                   (case document_guid of None \<Rightarrow> VNone
                                    | Some g \<Rightarrow> VStr g))]]\<rparr>))))"

subsection \<open>Borrow requests\<close>

text \<open>
  The number of active borrows of a user over all worksets:
  \<open>sum(1 for borrows in self.active_borrows.values() for b in borrows
  if b["borrower"] == user_id)\<close>.
\<close>

definition user_active_borrows :: "(string \<times> borrow list) list \<Rightarrow> string \<Rightarrow> nat" where
  "user_active_borrows tbl user_id =
     length (filter (\<lambda>b. b_borrower b = user_id) (concat (map snd tbl)))"

text \<open>
  \<open>request_borrow\<close>. \<open>t1\<close> is the clock reading inside \<open>_generate_request_id\<close>,
  \<open>t2\<close> the one for \<open>requested_at\<close>.
\<close>

definition request_borrow ::
  "pylib \<Rightarrow> ledger \<Rightarrow> string \<Rightarrow> string list \<Rightarrow> string \<Rightarrow> string \<Rightarrow> datetime \<Rightarrow> datetime
     \<Rightarrow> result \<times> ledger" where
  "request_borrow L s workset_id element_ids user_id reason t1 t2 =
     (case workset_owners s workset_id of
        None \<Rightarrow> (Failure ''Workset not found'', s)
      | Some cur_owner \<Rightarrow>
          if cur_owner = user_id then (Failure ''Owner cannot borrow from own workset'', s)
          else if int (user_active_borrows (active_borrows s) user_id)
                    \<ge> max_concurrent_borrows s then
            (Failure (''User has reached maximum concurrent borrows (''
                        @ str_int (max_concurrent_borrows s) @ '')''), s)
          else
            let request_id = generate_request_id L workset_id user_id t1;
                borrow_request =
                  \<lparr>r_request_id = request_id, r_workset_id = workset_id,
                   r_element_ids = element_ids, r_borrower = user_id,
                   r_owner = cur_owner, r_reason = reason, r_requested_at = t2,
                   r_status = ''pending'', r_approved_at = None, r_expires_at = None\<rparr>
            in (Requested request_id ''pending'' cur_owner,
                s\<lparr>borrow_requests := borrow_requests s @ [borrow_request]\<rparr>))"

subsection \<open>Approval\<close>

text \<open>
  The position of the request that
  \<open>next((r for r in self.borrow_requests if r["request_id"] == request_id), None)\<close>
  finds: the first one with that id.
\<close>

fun first_index :: "('a \<Rightarrow> bool) \<Rightarrow> 'a list \<Rightarrow> nat option" where
  "first_index P [] = None"
| "first_index P (x # xs) = (if P x then Some 0 else map_option Suc (first_index P xs))"

text \<open>
  \<open>approve_borrow\<close>. The request found is updated in place in \<open>borrow_requests\<close>;
  \<open>borrow_history\<close> receives a copy of it. \<open>t1\<close> is the clock reading for
  \<open>approved_at\<close>, \<open>t2\<close> the one \<open>expires_at\<close> is computed from; a
  \<open>timedelta\<close> of \<open>h\<close> hours is \<open>h * 3600000000\<close> microseconds.
\<close>

definition approve_borrow ::
  "ledger \<Rightarrow> string \<Rightarrow> string \<Rightarrow> datetime \<Rightarrow> datetime \<Rightarrow> result \<times> ledger" where
  "approve_borrow s request_id owner_id t1 t2 =
     (case first_index (\<lambda>r. r_request_id r = request_id) (borrow_requests s) of
        None \<Rightarrow> (Failure ''Request not found'', s)
      | Some i \<Rightarrow>
          let request = borrow_requests s ! i in
          if r_owner request \<noteq> owner_id then (Failure ''Only workset owner can approve'', s)
          else if r_status request \<noteq> ''pending'' then
            (Failure (''Request already '' @ r_status request), s)
          else
            let expires = t2 + borrow_timeout_hours s * 3600000000;
                approved = request\<lparr>r_status := ''approved'', r_approved_at := Some t1,
                                   r_expires_at := Some expires\<rparr>;
                new_borrow =
                  \<lparr>b_borrower = r_borrower approved, b_element_ids = r_element_ids approved,
                   b_borrowed_at = t1, b_expires_at = expires, b_request_id = request_id\<rparr>
            in (Approved request_id (r_borrower approved) expires,
                s\<lparr>borrow_requests := (borrow_requests s)[i := approved],
                  active_borrows :=
                    AList.update (r_workset_id approved)
                      (borrows_of (active_borrows s) (r_workset_id approved) @ [new_borrow])
                      (active_borrows s),
                  borrow_history := borrow_history s @ [approved]\<rparr>))"

subsection \<open>Release\<close>

text \<open>
  \<open>borrow["element_ids"] = remaining\<close> assigns to the dictionary that \<open>borrow\<close> refers
  to, an entry of the workset's list. When the loop reaches a borrow that loses
  elements, every equal entry before it in the list has already lost its own (it
  belongs to the same user and was visited earlier), so the dictionary is the first
  entry of the list equal to it; \<open>list.remove\<close> removes the first equal entry by
  definition.
\<close>

fun assign_element_ids :: "borrow \<Rightarrow> string list \<Rightarrow> borrow list \<Rightarrow> borrow list" where
  "assign_element_ids borrow remaining [] = []"
| "assign_element_ids borrow remaining (x # xs) =
     (if x = borrow then x\<lparr>b_element_ids := remaining\<rparr> # xs
      else x # assign_element_ids borrow remaining xs)"

text \<open>
  The loop \<open>for borrow in user_borrows\<close>: \<open>cur\<close> is the workset's list as mutated so
  far, \<open>released\<close> the elements collected so far.
\<close>

fun release_loop ::
  "string list \<Rightarrow> borrow list \<Rightarrow> borrow list \<Rightarrow> string list \<Rightarrow> borrow list \<times> string list" where
  "release_loop element_ids [] cur released = (cur, released)"
| "release_loop element_ids (borrow # rest) cur released =
     (let remaining = filter (\<lambda>e. e \<notin> set element_ids) (b_element_ids borrow) in
      if length remaining < length (b_element_ids borrow) then
        (let released' =
               released @ filter (\<lambda>e. e \<in> set element_ids) (b_element_ids borrow)
         in if remaining \<noteq> [] then
              release_loop element_ids rest (assign_element_ids borrow remaining cur) released'
            else release_loop element_ids rest (remove1 borrow cur) released')
      else release_loop element_ids rest cur released)"

definition release_borrowed ::
  "ledger \<Rightarrow> string \<Rightarrow> string list \<Rightarrow> string \<Rightarrow> datetime \<Rightarrow> result \<times> ledger" where
  "release_borrowed s workset_id element_ids user_id t1 =
     (case map_of (active_borrows s) workset_id of
        None \<Rightarrow> (Failure ''No active borrows for workset'', s)
      | Some borrows \<Rightarrow>
          let user_borrows = filter (\<lambda>b. b_borrower b = user_id) borrows in
          if user_borrows = [] then (Failure ''User has no active borrows'', s)
          else
            let (cur, released) = release_loop element_ids user_borrows borrows [] in
            (Released released t1,
             s\<lparr>active_borrows :=
                 (if cur = [] then AList.delete workset_id (active_borrows s)
                  else AList.update workset_id cur (active_borrows s))\<rparr>))"

subsection \<open>Expiry sweep\<close>

text \<open>
  The inner loop \<open>for borrow in borrows[:]\<close>: it runs over a copy of the workset's
  list and removes from the list itself.
\<close>

definition expired_entry :: "string \<Rightarrow> borrow \<Rightarrow> expired_borrow" where
  \<comment> \<open>the dictionary appended to \<open>expired\<close>\<close>
  "expired_entry workset_id borrow =
     \<lparr>x_workset_id = workset_id, x_borrower = b_borrower borrow,
      x_element_ids = b_element_ids borrow, x_expired_at = b_expires_at borrow\<rparr>"

fun sweep_loop ::
  "string \<Rightarrow> datetime \<Rightarrow> borrow list \<Rightarrow> borrow list \<Rightarrow> expired_borrow list
     \<Rightarrow> borrow list \<times> expired_borrow list" where
  "sweep_loop workset_id current_time [] borrows expired = (borrows, expired)"
| "sweep_loop workset_id current_time (borrow # rest) borrows expired =
     (if current_time > b_expires_at borrow then
        sweep_loop workset_id current_time rest (remove1 borrow borrows)
          (expired @ [expired_entry workset_id borrow])
      else sweep_loop workset_id current_time rest borrows expired)"

text \<open>
  The outer loop over \<open>list(self.active_borrows.items())\<close>: each workset's list is
  swept in place, and its key is deleted when the list is left empty.
\<close>

fun sweep_items ::
  "datetime \<Rightarrow> (string \<times> borrow list) list \<Rightarrow> expired_borrow list
     \<Rightarrow> (string \<times> borrow list) list \<times> expired_borrow list" where
  "sweep_items current_time [] expired = ([], expired)"
| "sweep_items current_time ((workset_id, borrows) # items) expired =
     (let (borrows', expired') = sweep_loop workset_id current_time borrows borrows expired;
          (items', expired'') = sweep_items current_time items expired'
      in (if borrows' = [] then items' else (workset_id, borrows') # items', expired''))"

definition check_expired_borrows :: "ledger \<Rightarrow> datetime \<Rightarrow> expired_borrow list \<times> ledger" where
  "check_expired_borrows s current_time =
     (let (tbl, expired) = sweep_items current_time (active_borrows s) []
      in (expired, s\<lparr>active_borrows := tbl\<rparr>))"

subsection \<open>Runs of the contract\<close>

text \<open>
  The states the contract can be in: the one \<open>__init__\<close> builds, and every state a
  method call leaves behind, whatever its arguments, the clock readings and the
  library functions, and whether it returns or raises.
\<close>

inductive reachable :: "ledger \<Rightarrow> bool" where
  init: "reachable initial_ledger"
| register:
    "reachable s \<Longrightarrow>
     reachable (snd (register_workset s workset_id workset_name owner document_guid
                       is_editable t1 t2 t3))"
| transfer:
    "reachable s \<Longrightarrow>
     reachable (state_of (transfer_ownership L s workset_id from_user to_user timestamp
                            document_guid t1))"
| request:
    "reachable s \<Longrightarrow>
     reachable (snd (request_borrow L s workset_id element_ids user_id reason t1 t2))"
| approve:
    "reachable s \<Longrightarrow> reachable (snd (approve_borrow s request_id owner_id t1 t2))"
| release:
    "reachable s \<Longrightarrow>
     reachable (snd (release_borrowed s workset_id element_ids user_id t1))"
| sweep:
    "reachable s \<Longrightarrow> reachable (snd (check_expired_borrows s current_time))"
| status:
    "reachable s \<Longrightarrow> reachable (state_of (get_workset_status s workset_id))"

text \<open>
  Every registered workset has a metadata dictionary. \<open>register_workset\<close> writes both
  dictionaries together and nothing deletes from either, so the contract is always in
  such a state (\<open>reachable_registered_have_metadata\<close> below).
\<close>

definition registered_have_metadata :: "ledger \<Rightarrow> bool" where
  "registered_have_metadata s =
     (\<forall>w. workset_owners s w \<noteq> None \<longrightarrow> workset_metadata s w \<noteq> None)"

subsection \<open>An example run\<close>

text \<open>
  Fixtures for the closed examples below. \<open>demo_lib\<close> stands in for the library
  functions: any functions will do for the theorems, which hold for every \<open>pylib\<close>.
  String reversal is of course not SHA-256, and the conversion of \<open>demo_lib\<close> is
  exact where Python's rounds; it raises for the year 33658, as Python's does. The states follow the scenario of the
  specification: \<open>alice\<close> registers \<open>ws1\<close>, \<open>bob\<close> asks to borrow \<open>e1\<close> and
  \<open>e2\<close>, \<open>alice\<close> approves.
\<close>

definition demo_lib :: pylib where
  "demo_lib =
     \<lparr>sha256_hexdigest = rev, isoformat = str_int,
      utcfromtimestamp =
        (\<lambda>t. if - 62135596800000000 \<le> t \<and> t \<le> 253402300799999999 then Inr t
             else Inl ValueError)\<rparr>"

definition demo_registered :: ledger where
  "demo_registered =
     snd (register_workset initial_ledger ''ws1'' ''Structural'' ''alice'' ''d1'' None 1 2 3)"

definition demo_requested :: ledger where
  "demo_requested =
     snd (request_borrow demo_lib demo_registered ''ws1'' [''e1'', ''e2''] ''bob'' [] 10 11)"

definition demo_request_id :: string where
  "demo_request_id = generate_request_id demo_lib ''ws1'' ''bob'' 10"

text \<open>The request \<open>bob\<close> filed, as it stands in \<open>demo_requested\<close>.\<close>

definition demo_request :: request where
  "demo_request =
     \<lparr>r_request_id = demo_request_id, r_workset_id = ''ws1'',
      r_element_ids = [''e1'', ''e2''], r_borrower = ''bob'', r_owner = ''alice'',
      r_reason = [], r_requested_at = 11, r_status = ''pending'',
      r_approved_at = None, r_expires_at = None\<rparr>"

definition demo_approved :: ledger where
  "demo_approved = snd (approve_borrow demo_requested demo_request_id ''alice'' 20 21)"






text \<open>
  A driver for runs: the calls are applied in order, each to the state the one before
  left behind, and their results are collected.
\<close>

fun run_calls :: "(ledger \<Rightarrow> result \<times> ledger) list \<Rightarrow> ledger \<Rightarrow> result list \<times> ledger" where
  "run_calls [] s = ([], s)"
| "run_calls (c # cs) s =
     (let (r, s1) = c s; (rs, s2) = run_calls cs s1 in (r # rs, s2))"

text \<open>
  After the registration of \<open>ws1\<close> by \<open>alice\<close>: \<open>bob\<close> files eleven requests, at
  eleven clock readings, and \<open>alice\<close> then approves each of them.
\<close>

definition eleven_borrows :: "result list \<times> ledger" where
  "eleven_borrows =
     run_calls
       (map (\<lambda>t s. request_borrow demo_lib s ''ws1'' [''e''] ''bob'' [] t t)
          [1, 2, 3, 4, 5, 6, 7, 8, 9, 10, 11] @
        map (\<lambda>t s. approve_borrow s (generate_request_id demo_lib ''ws1'' ''bob'' t)
                      ''alice'' 100 100)
          [1, 2, 3, 4, 5, 6, 7, 8, 9, 10, 11])
       demo_registered"

section \<open>Properties\<close>

declare str_nat.simps [simp del]

subsection \<open>Auxiliary facts\<close>




text \<open>Where ids are unique, every request is the one its id denotes.\<close>

lemma find_unique:
  "x \<in> set xs \<Longrightarrow> distinct (map f xs) \<Longrightarrow> find (\<lambda>y. f y = f x) xs = Some x"
  by (induction xs) (auto simp: image_iff)

text \<open>The association list.\<close>

lemma set_update_subset: "set (AList.update k v al) \<subseteq> insert (k, v) (set al)"
  by (induction al) auto

lemma set_delete_subset: "set (AList.delete k al) \<subseteq> set al"
  by (auto simp: AList.delete_eq)

text \<open>The four ways \<open>transfer_ownership\<close> can go when nothing raises.\<close>

lemma transfer_not_found:
  "workset_owners s workset_id = None \<Longrightarrow>
   transfer_ownership L s workset_id from_user to_user timestamp document_guid t1
     = Returned (Failure ''Workset not found'') s"
  by (simp add: transfer_ownership_def)

lemma transfer_unauthorized:
  "workset_owners s workset_id = Some cur \<Longrightarrow> cur \<noteq> from_user \<Longrightarrow>
   transfer_ownership L s workset_id from_user to_user timestamp document_guid t1
     = Returned (Failure (''User '' @ from_user @ '' is not the current owner'')) s"
  by (simp add: transfer_ownership_def)

lemma transfer_conflict:
  "workset_owners s workset_id = Some from_user \<Longrightarrow>
   borrows_of (active_borrows s) workset_id \<noteq> [] \<Longrightarrow>
   transfer_ownership L s workset_id from_user to_user timestamp document_guid t1
     = Returned (Failure ''Cannot transfer ownership with active borrows'') s"
  by (simp add: transfer_ownership_def)

lemma transfer_success:
  "workset_owners s workset_id = Some from_user \<Longrightarrow>
   borrows_of (active_borrows s) workset_id = [] \<Longrightarrow>
   workset_metadata s workset_id = Some ref \<Longrightarrow>
   utcfromtimestamp L timestamp = Inr dt \<Longrightarrow>
   transfer_ownership L s workset_id from_user to_user timestamp document_guid t1
     = Returned (Transferred workset_id to_user (generate_transfer_id L workset_id timestamp))
        (s\<lparr>workset_owners := (workset_owners s)(workset_id \<mapsto> to_user),
           metadata_objs :=
             (metadata_objs s)[ref := (metadata_objs s ! ref)\<lparr>m_last_modified := t1\<rparr>],
           ownership_history := ownership_history s @
             [[(''workset_id'', VStr workset_id),
               (''action'', VStr ''ownership_transfer''),
               (''from_user'', VStr from_user),
               (''to_user'', VStr to_user),
               (''timestamp'', VTime dt),
               (''document_guid'',
                  (case document_guid of None \<Rightarrow> VNone | Some g \<Rightarrow> VStr g))]]\<rparr>)"
  by (simp add: transfer_ownership_def Let_def)



text \<open>What each method does to \<open>active_borrows\<close>.\<close>

lemma active_borrows_register:
  "active_borrows (snd (register_workset s workset_id workset_name owner document_guid
      is_editable t1 t2 t3)) = active_borrows s"
  by (simp add: register_workset_def Let_def)

lemma active_borrows_transfer:
  "active_borrows (state_of (transfer_ownership L s workset_id from_user to_user timestamp
      document_guid t1)) = active_borrows s"
  by (simp add: transfer_ownership_def Let_def split: option.split sum.split)

lemma active_borrows_request:
  "active_borrows (snd (request_borrow L s workset_id element_ids user_id reason t1 t2))
     = active_borrows s"
  by (simp add: request_borrow_def Let_def split: option.split)

lemma active_borrows_status:
  "active_borrows (state_of (get_workset_status s workset_id)) = active_borrows s"
  by (simp add: get_workset_status_def Let_def split: option.split)

lemma active_borrows_approve:
  "active_borrows (snd (approve_borrow s request_id owner_id t1 t2)) = active_borrows s \<or>
   (\<exists>w b. active_borrows (snd (approve_borrow s request_id owner_id t1 t2))
      = AList.update w (borrows_of (active_borrows s) w @ [b]) (active_borrows s))"
  by (auto simp: approve_borrow_def Let_def split: option.split)

lemma active_borrows_release:
  "active_borrows (snd (release_borrowed s workset_id element_ids user_id t1))
     = active_borrows s \<or>
   active_borrows (snd (release_borrowed s workset_id element_ids user_id t1))
     = AList.delete workset_id (active_borrows s) \<or>
   (\<exists>cur. cur \<noteq> [] \<and>
      active_borrows (snd (release_borrowed s workset_id element_ids user_id t1))
        = AList.update workset_id cur (active_borrows s))"
  by (auto simp: release_borrowed_def Let_def split: option.split prod.split)

lemma active_borrows_sweep:
  "active_borrows (snd (check_expired_borrows s current_time))
     = fst (sweep_items current_time (active_borrows s) [])"
  by (simp add: check_expired_borrows_def split: prod.split)

text \<open>
  The sweep of one workset's list keeps the borrows that have not expired, in their
  order, and reports the others, in their order: removing the first entry equal to an
  expired borrow removes an expired borrow, and none of those is kept.
\<close>

lemma sweep_loop_eq:
  "\<forall>b \<in> set pre. \<not> current_time > b_expires_at b \<Longrightarrow>
   sweep_loop workset_id current_time todo (pre @ todo) expired
     = (pre @ filter (\<lambda>b. \<not> current_time > b_expires_at b) todo,
        expired @ map (expired_entry workset_id)
                    (filter (\<lambda>b. current_time > b_expires_at b) todo))"
proof (induction todo arbitrary: pre expired)
  case Nil
  then show ?case by simp
next
  case (Cons b rest)
  show ?case
  proof (cases "current_time > b_expires_at b")
    case True
    with Cons.prems have "b \<notin> set pre" by auto
    then have "remove1 b (pre @ b # rest) = pre @ rest"
      by (simp add: remove1_append)
    with True Cons.IH [OF Cons.prems] show ?thesis by simp
  next
    case False
    with Cons.prems have "\<forall>x \<in> set (pre @ [b]). \<not> current_time > b_expires_at x" by auto
    from Cons.IH [OF this] False show ?thesis by simp
  qed
qed

lemma sweep_items_eq:
  "sweep_items current_time items expired
     = (filter (\<lambda>(w, bs). bs \<noteq> [])
          (map (\<lambda>(w, bs). (w, filter (\<lambda>b. \<not> current_time > b_expires_at b) bs)) items),
        expired @ concat (map (\<lambda>(w, bs). map (expired_entry w)
                      (filter (\<lambda>b. current_time > b_expires_at b) bs)) items))"
proof (induction items arbitrary: expired)
  case Nil
  show ?case by simp
next
  case (Cons p items)
  obtain w bs where p: "p = (w, bs)" by (cases p)
  from sweep_loop_eq [of "[]" current_time w bs expired]
  have "sweep_loop w current_time bs bs expired
     = (filter (\<lambda>b. \<not> current_time > b_expires_at b) bs,
        expired @ map (expired_entry w) (filter (\<lambda>b. current_time > b_expires_at b) bs))"
    by simp
  with Cons.IH p show ?case by simp
qed

text \<open>A release that matches nothing leaves the list alone.\<close>

lemma release_loop_no_match:
  "\<forall>b \<in> set todo. set (b_element_ids b) \<inter> set element_ids = {} \<Longrightarrow>
   release_loop element_ids todo cur released = (cur, released)"
proof (induction todo)
  case Nil
  show ?case by simp
next
  case (Cons b rest)
  then have "filter (\<lambda>e. e \<notin> set element_ids) (b_element_ids b) = b_element_ids b"
    by (auto simp: filter_id_conv)
  with Cons show ?case by simp
qed

subsection \<open>Invariants of the runs\<close>

text \<open>Every registered workset has its metadata dictionary.\<close>

lemma reachable_registered_have_metadata: "reachable s \<Longrightarrow> registered_have_metadata s"
proof (induction rule: reachable.induct)
  case init
  show ?case by (simp add: registered_have_metadata_def initial_ledger_def)
next
  case (register s workset_id workset_name owner document_guid is_editable t1 t2 t3)
  then show ?case
    by (auto simp: registered_have_metadata_def register_workset_def Let_def)
next
  case (transfer s L workset_id from_user to_user timestamp document_guid t1)
  then show ?case
    by (auto simp: registered_have_metadata_def transfer_ownership_def Let_def
          split: option.splits sum.splits if_splits)
next
  case (request s L workset_id element_ids user_id reason t1 t2)
  then show ?case
    by (auto simp: registered_have_metadata_def request_borrow_def Let_def
          split: option.splits)
next
  case (approve s request_id owner_id t1 t2)
  then show ?case
    by (auto simp: registered_have_metadata_def approve_borrow_def Let_def
          split: option.splits)
next
  case (release s workset_id element_ids user_id t1)
  then show ?case
    by (auto simp: registered_have_metadata_def release_borrowed_def Let_def
          split: option.splits prod.splits)
next
  case (sweep s current_time)
  then show ?case
    by (auto simp: registered_have_metadata_def check_expired_borrows_def
          split: prod.splits)
next
  case (status s workset_id)
  then show ?case
    by (auto simp: registered_have_metadata_def get_workset_status_def Let_def
          split: option.splits)
qed

text \<open>
  The keys of \<open>active_borrows\<close> are distinct, as the keys of a dictionary are: the
  association list stands for a dictionary in every run.
\<close>

lemma map_fst_map_snd: "map fst (map (\<lambda>(w, bs). (w, f bs)) items) = map fst items"
  by (induction items) auto

lemma reachable_distinct_keys: "reachable s \<Longrightarrow> distinct (map fst (active_borrows s))"
proof (induction rule: reachable.induct)
  case init
  show ?case by (simp add: initial_ledger_def)
next
  case (approve s request_id owner_id t1 t2)
  with active_borrows_approve [of s request_id owner_id t1 t2] show ?case
    by (auto simp: distinct_update)
next
  case (release s workset_id element_ids user_id t1)
  with active_borrows_release [of s workset_id element_ids user_id t1] show ?case
    by (auto simp: distinct_update distinct_delete)
next
  case (sweep s current_time)
  let ?keep = "\<lambda>(w :: string, bs). (w, filter (\<lambda>b. \<not> current_time > b_expires_at b) bs)"
  have "distinct (map fst (map ?keep (active_borrows s)))"
    by (subst map_fst_map_snd) (rule sweep.IH)
  then have "distinct (map fst (filter (\<lambda>(w, bs). bs \<noteq> [])
                                   (map ?keep (active_borrows s))))"
    by (rule distinct_map_filter)
  then show ?case
    by (simp add: active_borrows_sweep sweep_items_eq)
qed (simp_all add: active_borrows_register active_borrows_transfer active_borrows_request
       active_borrows_status)

text \<open>No workset is left with an empty list of borrows.\<close>

lemma sweep_items_nonempty:
  "(w, bs) \<in> set (fst (sweep_items current_time items expired)) \<Longrightarrow> bs \<noteq> []"
  by (auto simp: sweep_items_eq)

lemma reachable_no_empty_list:
  "reachable s \<Longrightarrow> (w, bs) \<in> set (active_borrows s) \<Longrightarrow> bs \<noteq> []"
proof (induction arbitrary: w bs rule: reachable.induct)
  case init
  then show ?case by (simp add: initial_ledger_def)
next
  case (approve s request_id owner_id t1 t2)
  with active_borrows_approve [of s request_id owner_id t1 t2] show ?case
    using set_update_subset by fastforce
next
  case (release s workset_id element_ids user_id t1)
  with active_borrows_release [of s workset_id element_ids user_id t1] show ?case
    using set_update_subset set_delete_subset by fastforce
next
  case (sweep s current_time)
  then show ?case
    by (auto simp: active_borrows_sweep dest: sweep_items_nonempty)
qed (simp_all add: active_borrows_register active_borrows_transfer active_borrows_request
       active_borrows_status)

subsection \<open>The example run, computed\<close>

lemma demo_registered_eq:
  "demo_registered =
     \<lparr>workset_owners = [''ws1'' \<mapsto> ''alice''], workset_metadata = [''ws1'' \<mapsto> 0],
      metadata_objs = [\<lparr>m_name = ''Structural'', m_document_guid = ''d1'',
                         m_registered_at = 1, m_is_editable = True, m_last_modified = 2\<rparr>],
      borrow_requests = [], borrow_history = [],
      ownership_history =
        [[(''workset_id'', VStr ''ws1''), (''action'', VStr ''registered''),
          (''owner'', VStr ''alice''), (''timestamp'', VTime 3), (''metadata'', VRef 0)]],
      active_borrows = [], borrow_timeout_hours = 24, max_concurrent_borrows = 10\<rparr>"
  by (simp add: demo_registered_def initial_ledger_def register_workset_def Let_def)

lemma demo_request_id_eq: "demo_request_id = ''01-bob-1sw''"
  by (simp add: demo_request_id_def generate_request_id_def demo_lib_def str_int_def
        str_nat.simps)

lemma demo_requested_eq:
  "demo_requested = demo_registered\<lparr>borrow_requests := [demo_request]\<rparr>"
  by (simp add: demo_requested_def demo_registered_eq request_borrow_def demo_request_def
        user_active_borrows_def Let_def demo_request_id_def)

lemma demo_approved_eq:
  "demo_approved =
     demo_registered
      \<lparr>borrow_requests :=
         [demo_request\<lparr>r_status := ''approved'', r_approved_at := Some 20,
                        r_expires_at := Some 86400000021\<rparr>],
       borrow_history :=
         [demo_request\<lparr>r_status := ''approved'', r_approved_at := Some 20,
                        r_expires_at := Some 86400000021\<rparr>],
       active_borrows :=
         [(''ws1'', [\<lparr>b_borrower = ''bob'', b_element_ids = [''e1'', ''e2''],
                      b_borrowed_at = 20, b_expires_at = 86400000021,
                      b_request_id = ''01-bob-1sw''\<rparr>])]\<rparr>"
  by (simp add: demo_approved_def demo_requested_eq demo_request_def demo_request_id_eq
        demo_registered_eq approve_borrow_def borrows_of_def Let_def)

lemma reachable_demo_approved: "reachable demo_approved"
  unfolding demo_approved_def demo_requested_def demo_registered_def
  by (intro reachable.intros)

subsection \<open>Ownership transfer\<close>

text \<open>
  Where the conversion of the timestamp returns, \<open>transfer_ownership\<close> keeps its
  contract: success if and only if the workset is registered, \<open>from_user\<close> is its recorded
  owner and it has no active borrow; otherwise the failure of the first precondition
  violated, with the state as it was.
\<close>

lemma transfer_ownership_when_converted:
  assumes md: "registered_have_metadata s"
    and dt: "utcfromtimestamp L timestamp = Inr dt"
  shows
    "(returned_success
        (transfer_ownership L s workset_id from_user to_user timestamp document_guid t1)
      \<longleftrightarrow> workset_owners s workset_id = Some from_user \<and>
          borrows_of (active_borrows s) workset_id = []) \<and>
     (workset_owners s workset_id = None \<longrightarrow>
        transfer_ownership L s workset_id from_user to_user timestamp document_guid t1
          = Returned (Failure ''Workset not found'') s) \<and>
     (workset_owners s workset_id \<noteq> None \<and>
      workset_owners s workset_id \<noteq> Some from_user \<longrightarrow>
        transfer_ownership L s workset_id from_user to_user timestamp document_guid t1
          = Returned (Failure (''User '' @ from_user @ '' is not the current owner'')) s) \<and>
     (workset_owners s workset_id = Some from_user \<and>
      borrows_of (active_borrows s) workset_id \<noteq> [] \<longrightarrow>
        transfer_ownership L s workset_id from_user to_user timestamp document_guid t1
          = Returned (Failure ''Cannot transfer ownership with active borrows'') s)"
proof -
  let ?call = "transfer_ownership L s workset_id from_user to_user timestamp document_guid t1"
  have ok: "returned_success ?call"
    if "workset_owners s workset_id = Some from_user"
      and "borrows_of (active_borrows s) workset_id = []"
  proof -
    from that(1) md obtain ref where "workset_metadata s workset_id = Some ref"
      by (auto simp: registered_have_metadata_def)
    from transfer_success [OF that this dt] show ?thesis by simp
  qed
  have nf: "?call = Returned (Failure ''Workset not found'') s"
    if "workset_owners s workset_id = None"
    using that by (rule transfer_not_found)
  have ua: "?call = Returned (Failure (''User '' @ from_user @ '' is not the current owner'')) s"
    if "workset_owners s workset_id \<noteq> None" "workset_owners s workset_id \<noteq> Some from_user"
    using that transfer_unauthorized by fastforce
  have cf: "?call = Returned (Failure ''Cannot transfer ownership with active borrows'') s"
    if "workset_owners s workset_id = Some from_user"
      "borrows_of (active_borrows s) workset_id \<noteq> []"
    using that by (rule transfer_conflict)
  have iff: "returned_success ?call \<longleftrightarrow>
      workset_owners s workset_id = Some from_user \<and>
      borrows_of (active_borrows s) workset_id = []"
  proof (cases "workset_owners s workset_id")
    case None
    with nf show ?thesis by simp
  next
    case (Some cur)
    show ?thesis
    proof (cases "cur = from_user")
      case False
      with Some ua show ?thesis by simp
    next
      case True
      with Some ok cf show ?thesis
        by (cases "borrows_of (active_borrows s) workset_id = []") auto
    qed
  qed
  from iff nf ua cf show ?thesis by blast
qed

text \<open>
  C1. The claim: for every state and every call, \<open>transfer_ownership\<close> returns
  \<open>success = True\<close> if and only if the workset is registered, \<open>from_user\<close> is its
  recorded owner and it has no active borrow, and otherwise returns the failure of the
  first precondition violated and leaves the recorded owner as it was. The contract
  falls short of it. The three checks return their failure before anything is written,
  but the timestamp is converted only after the owner has been reassigned and
  \<open>last_modified\<close> assigned. So whenever the three preconditions hold and the
  conversion raises, the call returns nothing, neither success nor failure: it raises,
  with the workset already in the hands of \<open>to_user\<close> and no entry in the ownership
  history.
\<close>

theorem transfer_ownership_raises_after_reassigning:
  assumes own: "workset_owners s workset_id = Some from_user"
    and free: "borrows_of (active_borrows s) workset_id = []"
    and md: "workset_metadata s workset_id = Some ref"
    and conv: "utcfromtimestamp L timestamp = Inl e"
  shows
    "transfer_ownership L s workset_id from_user to_user timestamp document_guid t1
       = Raised e
           (s\<lparr>workset_owners := (workset_owners s)(workset_id \<mapsto> to_user),
              metadata_objs :=
                (metadata_objs s)[ref := (metadata_objs s ! ref)\<lparr>m_last_modified := t1\<rparr>]\<rparr>) \<and>
     \<not> returned_success
         (transfer_ownership L s workset_id from_user to_user timestamp document_guid t1) \<and>
     workset_owners
       (state_of (transfer_ownership L s workset_id from_user to_user timestamp
                    document_guid t1)) workset_id = Some to_user \<and>
     ownership_history
       (state_of (transfer_ownership L s workset_id from_user to_user timestamp
                    document_guid t1)) = ownership_history s"
  using assms by (simp add: transfer_ownership_def Let_def)

text \<open>
  In the example run \<open>alice\<close> hands \<open>ws1\<close>, which she owns and nobody borrows from,
  to \<open>carol\<close>, with a timestamp of \<open>10^18\<close> microseconds: the year 33658, for which
  \<open>datetime.utcfromtimestamp\<close> raises \<open>ValueError\<close>.
\<close>

theorem transfer_ownership_raises_after_reassigning_witness:
  "workset_owners demo_registered ''ws1'' = Some ''alice'' \<and>
   borrows_of (active_borrows demo_registered) ''ws1'' = [] \<and>
   workset_metadata demo_registered ''ws1'' = Some 0 \<and>
   utcfromtimestamp demo_lib 1000000000000000000 = Inl ValueError \<and>
   transfer_ownership demo_lib demo_registered ''ws1'' ''alice'' ''carol''
       1000000000000000000 None 5
     = Raised ValueError
         (demo_registered
            \<lparr>workset_owners := [''ws1'' \<mapsto> ''carol''],
             metadata_objs :=
               [\<lparr>m_name = ''Structural'', m_document_guid = ''d1'', m_registered_at = 1,
                 m_is_editable = True, m_last_modified = 5\<rparr>]\<rparr>) \<and>
   workset_owners
     (state_of (transfer_ownership demo_lib demo_registered ''ws1'' ''alice'' ''carol''
                  1000000000000000000 None 5)) ''ws1'' = Some ''carol''"
proof -
  have own: "workset_owners demo_registered ''ws1'' = Some ''alice''"
    and free: "borrows_of (active_borrows demo_registered) ''ws1'' = []"
    and md: "workset_metadata demo_registered ''ws1'' = Some 0"
    by (simp_all add: demo_registered_eq borrows_of_def)
  have conv: "utcfromtimestamp demo_lib 1000000000000000000 = Inl ValueError"
    by (simp add: demo_lib_def)
  from transfer_ownership_raises_after_reassigning
      [OF own free md conv, where to_user = "''carol''" and document_guid = None
         and ?t1.0 = 5]
    own free md conv
  show ?thesis by (simp add: demo_registered_eq)
qed




subsection \<open>Borrow requests\<close>

text \<open>
  C2. The claim is that after any run of successful \<open>request_borrow\<close> and
  \<open>approve_borrow\<close> calls a user holds at most \<open>max_concurrent_borrows\<close> active
  borrows. The contract does not keep that promise. \<open>request_borrow\<close> compares the
  ceiling with the borrows that are active when the request is filed, and
  \<open>approve_borrow\<close> does not look at the ceiling at all: in the run \<open>eleven_borrows\<close>
  all twenty-two calls succeed, and \<open>bob\<close> ends with eleven active borrows under a
  ceiling of ten.
\<close>

theorem borrow_ceiling_exceeded:
  "length (fst eleven_borrows) = 22 \<and>
   list_all success (fst eleven_borrows) \<and>
   user_active_borrows (active_borrows (snd eleven_borrows)) ''bob'' = 11 \<and>
   max_concurrent_borrows (snd eleven_borrows) = 10"
  by code_simp

subsection \<open>Approval\<close>







subsection \<open>Release\<close>

text \<open>
  C7. When the user holds at least one active borrow on the workset and none of the
  element ids to release occurs in any of the user's borrows there,
  \<open>release_borrowed\<close> returns \<open>success = True\<close> with an empty list of released
  elements, and the state, the table of active borrows included, is as it was.
\<close>

theorem release_nothing_matching:
  assumes "\<exists>b \<in> set (borrows_of (active_borrows s) workset_id). b_borrower b = user_id"
    and "\<forall>b \<in> set (borrows_of (active_borrows s) workset_id).
           b_borrower b = user_id \<longrightarrow> set (b_element_ids b) \<inter> set element_ids = {}"
  shows "release_borrowed s workset_id element_ids user_id t1 = (Released [] t1, s)"
proof -
  from assms(1) obtain borrows where
    tbl: "map_of (active_borrows s) workset_id = Some borrows"
    by (cases "map_of (active_borrows s) workset_id") (auto simp: borrows_of_def)
  then have bs: "borrows_of (active_borrows s) workset_id = borrows"
    by (simp add: borrows_of_def)
  let ?mine = "filter (\<lambda>b. b_borrower b = user_id) borrows"
  from assms(1) have ne: "?mine \<noteq> []" and ne': "borrows \<noteq> []"
    unfolding bs by (auto simp: filter_empty_conv)
  from assms(2) have "release_loop element_ids ?mine borrows [] = (borrows, [])"
    unfolding bs by (intro release_loop_no_match) auto
  with tbl ne ne' show ?thesis
    by (simp add: release_borrowed_def Let_def AList.update_triv)
qed

text \<open>
  In the example run \<open>bob\<close> holds \<open>e1\<close> and \<open>e2\<close> of \<open>ws1\<close> and releases
  \<open>e9\<close>.
\<close>

theorem release_nothing_matching_witness:
  "b_borrower (hd (borrows_of (active_borrows demo_approved) ''ws1'')) = ''bob'' \<and>
   b_element_ids (hd (borrows_of (active_borrows demo_approved) ''ws1'')) = [''e1'', ''e2''] \<and>
   length (borrows_of (active_borrows demo_approved) ''ws1'') = 1 \<and>
   release_borrowed demo_approved ''ws1'' [''e9''] ''bob'' 30 = (Released [] 30, demo_approved)"
proof -
  have bs: "borrows_of (active_borrows demo_approved) ''ws1'' =
      [\<lparr>b_borrower = ''bob'', b_element_ids = [''e1'', ''e2''], b_borrowed_at = 20,
        b_expires_at = 86400000021, b_request_id = ''01-bob-1sw''\<rparr>]"
    by (simp add: demo_approved_eq borrows_of_def)
  have h1: "\<exists>b \<in> set (borrows_of (active_borrows demo_approved) ''ws1''). b_borrower b = ''bob''"
    by (simp add: bs)
  have h2: "\<forall>b \<in> set (borrows_of (active_borrows demo_approved) ''ws1'').
           b_borrower b = ''bob'' \<longrightarrow> set (b_element_ids b) \<inter> set [''e9''] = {}"
    by (simp add: bs)
  from release_nothing_matching [OF h1 h2, of 30] bs show ?thesis by simp
qed

subsection \<open>Expiry sweep\<close>

text \<open>
  C5. \<open>check_expired_borrows\<close> returns exactly the active borrows whose \<open>expires_at\<close>
  lies strictly before the current time, workset by workset in the order of the table
  and within a workset in the order of its list; so the expiry of every entry returned
  is strictly before the current time, never in the future. After the call the table
  holds exactly the other borrows (a workset left without any has lost its key), so
  none of the borrows returned is in it any more.
\<close>

theorem check_expired_borrows_exact:
  "fst (check_expired_borrows s current_time)
     = concat (map (\<lambda>(w, bs). map (expired_entry w)
                 (filter (\<lambda>b. b_expires_at b < current_time) bs)) (active_borrows s)) \<and>
   active_borrows (snd (check_expired_borrows s current_time))
     = filter (\<lambda>(w, bs). bs \<noteq> [])
         (map (\<lambda>(w, bs). (w, filter (\<lambda>b. \<not> b_expires_at b < current_time) bs))
            (active_borrows s)) \<and>
   (\<forall>x \<in> set (fst (check_expired_borrows s current_time)). x_expired_at x < current_time) \<and>
   (\<forall>w bs b. (w, bs) \<in> set (active_borrows (snd (check_expired_borrows s current_time)))
        \<and> b \<in> set bs \<longrightarrow> \<not> b_expires_at b < current_time)"
  by (auto simp: check_expired_borrows_def sweep_items_eq expired_entry_def split: prod.splits)

text \<open>
  In the example run \<open>bob\<close>'s borrow expires at \<open>86400000021\<close>: a sweep at that very
  instant returns nothing and leaves the table alone, a sweep one microsecond later
  returns the borrow and empties the table.
\<close>

theorem check_expired_borrows_exact_witness:
  "fst (check_expired_borrows demo_approved 86400000021) = [] \<and>
   active_borrows (snd (check_expired_borrows demo_approved 86400000021))
     = active_borrows demo_approved \<and>
   fst (check_expired_borrows demo_approved 86400000022)
     = [\<lparr>x_workset_id = ''ws1'', x_borrower = ''bob'', x_element_ids = [''e1'', ''e2''],
         x_expired_at = 86400000021\<rparr>] \<and>
   active_borrows (snd (check_expired_borrows demo_approved 86400000022)) = []"
  using check_expired_borrows_exact [of demo_approved 86400000021]
    check_expired_borrows_exact [of demo_approved 86400000022]
  by (simp add: demo_approved_eq expired_entry_def)

subsection \<open>No empty list in the table of active borrows\<close>

text \<open>
  C6. In every state reachable from the initial ledger by any sequence of method calls,
  every key of the table of active borrows has a non-empty list of borrows: looking a
  workset up never yields an empty list. The states that \<open>release_borrowed\<close> and
  \<open>check_expired_borrows\<close> leave behind are among them, so both delete the key of a
  workset whose list they have emptied, and no method leaves an empty list behind.
\<close>

theorem active_borrows_lists_nonempty:
  assumes "reachable s"
  shows "(\<forall>w bs. (w, bs) \<in> set (active_borrows s) \<longrightarrow> bs \<noteq> []) \<and>
         (\<forall>w. map_of (active_borrows s) w \<noteq> Some []) \<and>
         (\<forall>w element_ids user_id t1 bs.
            (w, bs) \<in> set (active_borrows (snd (release_borrowed s w element_ids user_id t1)))
              \<longrightarrow> bs \<noteq> []) \<and>
         (\<forall>current_time w bs.
            (w, bs) \<in> set (active_borrows (snd (check_expired_borrows s current_time)))
              \<longrightarrow> bs \<noteq> [])"
proof -
  have "bs \<noteq> []" if "reachable u" "map_of (active_borrows u) w = Some bs" for u w bs
    using reachable_no_empty_list [OF that(1)] map_of_SomeD [OF that(2)] by blast
  with assms show ?thesis
    using reachable_no_empty_list reachable.release reachable.sweep by blast
qed

text \<open>
  In the example run: \<open>bob\<close> releases first \<open>e1\<close>, which leaves his borrow with
  \<open>e2\<close>, then \<open>e2\<close>, which removes the borrow and with it the key \<open>ws1\<close>.
\<close>

theorem active_borrows_lists_nonempty_witness:
  "reachable demo_approved \<and>
   release_borrowed demo_approved ''ws1'' [''e1''] ''bob'' 30
     = (Released [''e1''] 30,
        demo_approved\<lparr>active_borrows :=
          [(''ws1'', [\<lparr>b_borrower = ''bob'', b_element_ids = [''e2''], b_borrowed_at = 20,
                       b_expires_at = 86400000021, b_request_id = ''01-bob-1sw''\<rparr>])]\<rparr>) \<and>
   release_borrowed
       (snd (release_borrowed demo_approved ''ws1'' [''e1''] ''bob'' 30))
       ''ws1'' [''e2''] ''bob'' 31
     = (Released [''e2''] 31, demo_approved\<lparr>active_borrows := []\<rparr>) \<and>
   map_of (active_borrows demo_approved) ''ws1'' \<noteq> Some [] \<and>
   map_of (active_borrows
     (snd (release_borrowed demo_approved ''ws1'' [''e1'', ''e2''] ''bob'' 30))) ''ws1''
     = None"
proof -
  have r1: "release_borrowed demo_approved ''ws1'' [''e1''] ''bob'' 30
     = (Released [''e1''] 30,
        demo_approved\<lparr>active_borrows :=
          [(''ws1'', [\<lparr>b_borrower = ''bob'', b_element_ids = [''e2''], b_borrowed_at = 20,
                       b_expires_at = 86400000021, b_request_id = ''01-bob-1sw''\<rparr>])]\<rparr>)"
    by (simp add: demo_approved_eq release_borrowed_def Let_def)
  have r2: "release_borrowed
       (demo_approved\<lparr>active_borrows :=
          [(''ws1'', [\<lparr>b_borrower = ''bob'', b_element_ids = [''e2''], b_borrowed_at = 20,
                       b_expires_at = 86400000021, b_request_id = ''01-bob-1sw''\<rparr>])]\<rparr>)
       ''ws1'' [''e2''] ''bob'' 31
     = (Released [''e2''] 31, demo_approved\<lparr>active_borrows := []\<rparr>)"
    by (simp add: demo_approved_eq release_borrowed_def Let_def AList.delete_eq)
  have r3: "map_of (active_borrows
     (snd (release_borrowed demo_approved ''ws1'' [''e1'', ''e2''] ''bob'' 30))) ''ws1''
     = None"
    by (simp add: demo_approved_eq release_borrowed_def Let_def AList.delete_eq)
  from active_borrows_lists_nonempty [OF reachable_demo_approved] reachable_demo_approved
    r1 r2 r3
  show ?thesis by simp
qed

subsection \<open>Registration\<close>

text \<open>
  C8. \<open>register_workset\<close> fails with the error \<open>Missing required parameters\<close> (the
  specification's \<open>InvalidInput\<close>) exactly when the workset id, the name or the owner is
  empty, and then leaves the state as it was. Otherwise it succeeds whatever the state:
  it overwrites the owner and the metadata of the workset without looking at the
  present owner, appends exactly one entry to the ownership history, leaves every other
  component alone, and reports the action \<open>updated\<close> when the workset id was registered
  before and \<open>registered\<close> when it is new.
\<close>

theorem register_workset_contract:
  "(workset_id = [] \<or> workset_name = [] \<or> owner = [] \<longrightarrow>
      register_workset s workset_id workset_name owner document_guid is_editable t1 t2 t3
        = (Failure ''Missing required parameters'', s)) \<and>
   (workset_id \<noteq> [] \<and> workset_name \<noteq> [] \<and> owner \<noteq> [] \<longrightarrow>
      (let action = (if workset_owners s workset_id = None then ''registered''
                     else ''updated'');
           ref = length (metadata_objs s);
           (r, s') = register_workset s workset_id workset_name owner document_guid
                       is_editable t1 t2 t3
       in r = Registered workset_id action \<and>
          workset_owners s' = (workset_owners s)(workset_id \<mapsto> owner) \<and>
          workset_metadata s' = (workset_metadata s)(workset_id \<mapsto> ref) \<and>
          metadata_objs s' = metadata_objs s @
            [\<lparr>m_name = workset_name, m_document_guid = document_guid,
              m_registered_at = t1,
              m_is_editable = (case is_editable of None \<Rightarrow> True | Some b \<Rightarrow> b),
              m_last_modified = t2\<rparr>] \<and>
          ownership_history s' = ownership_history s @
            [[(''workset_id'', VStr workset_id), (''action'', VStr action),
              (''owner'', VStr owner), (''timestamp'', VTime t3),
              (''metadata'', VRef ref)]] \<and>
          borrow_requests s' = borrow_requests s \<and>
          borrow_history s' = borrow_history s \<and>
          active_borrows s' = active_borrows s \<and>
          borrow_timeout_hours s' = borrow_timeout_hours s \<and>
          max_concurrent_borrows s' = max_concurrent_borrows s))"
  by (simp add: register_workset_def Let_def)

text \<open>
  The three cases at work: an empty id, a new workset, and a second registration of
  \<open>ws1\<close> by somebody who is not its owner.
\<close>

theorem register_workset_contract_witness:
  "register_workset initial_ledger [] ''Structural'' ''alice'' ''d1'' None 1 2 3
     = (Failure ''Missing required parameters'', initial_ledger) \<and>
   fst (register_workset initial_ledger ''ws1'' ''Structural'' ''alice'' ''d1'' None 1 2 3)
     = Registered ''ws1'' ''registered'' \<and>
   fst (register_workset demo_registered ''ws1'' ''Structural'' ''mallory'' ''d1'' None 4 5 6)
     = Registered ''ws1'' ''updated'' \<and>
   workset_owners demo_registered ''ws1'' = Some ''alice'' \<and>
   workset_owners
     (snd (register_workset demo_registered ''ws1'' ''Structural'' ''mallory'' ''d1'' None 4 5 6))
     ''ws1'' = Some ''mallory'' \<and>
   length (ownership_history
     (snd (register_workset demo_registered ''ws1'' ''Structural'' ''mallory'' ''d1'' None 4 5 6)))
     = Suc (length (ownership_history demo_registered))"
  using
    register_workset_contract
      [where workset_id = "[]" and workset_name = "''Structural''" and owner = "''alice''"
         and s = initial_ledger and document_guid = "''d1''" and is_editable = None
         and ?t1.0 = 1 and ?t2.0 = 2 and ?t3.0 = 3]
    register_workset_contract
      [where workset_id = "''ws1''" and workset_name = "''Structural''" and owner = "''alice''"
         and s = initial_ledger and document_guid = "''d1''" and is_editable = None
         and ?t1.0 = 1 and ?t2.0 = 2 and ?t3.0 = 3]
    register_workset_contract
      [where workset_id = "''ws1''" and workset_name = "''Structural''"
         and owner = "''mallory''" and s = demo_registered and document_guid = "''d1''"
         and is_editable = None and ?t1.0 = 4 and ?t2.0 = 5 and ?t3.0 = 6]
  by (simp add: demo_registered_def initial_ledger_def register_workset_def Let_def)

subsection \<open>Status query\<close>

text \<open>
  C10. \<open>get_workset_status\<close> is read-only: whatever the state and the workset id,
  registered or not, and whether the call returns or raises, the state after the call
  is the state before it, in every component.
\<close>

theorem get_workset_status_read_only:
  "state_of (get_workset_status s workset_id) = s"
  by (simp add: get_workset_status_def Let_def split: option.split)

end
